theory Spec2Isabelle
  imports Complex_Main
begin

section \<open>Data model\<close>

text \<open>
  The client of \<^verbatim>\<open>examples/python-sdk/index.py\<close> talks JSON over HTTP. A decoded body
  is a Python value built by \<^verbatim>\<open>json.loads\<close>: \<^verbatim>\<open>None\<close>, a bool, an int, a float, a str, a
  list or a dict. A dict is kept as an association list in insertion order; a lookup
  takes the binding \<open>map_of\<close> finds.
\<close>

datatype pyfloat = Finite rat | Infinity bool | NaN

datatype json =
    JNull
  | JBool bool
  | JInt int
  | JFloat pyfloat
  | JStr string
  | JArr "json list"
  | JObj "(string \<times> json) list"

text \<open>Python's truth value of a decoded body, as \<^verbatim>\<open>if data.get("success"):\<close> tests it.\<close>

fun truthy :: "json \<Rightarrow> bool" where
  "truthy JNull = False"
| "truthy (JBool b) = b"
| "truthy (JInt i) = (i \<noteq> 0)"
| "truthy (JFloat f) = (f \<noteq> Finite 0)"
| "truthy (JStr s) = (s \<noteq> [])"
| "truthy (JArr xs) = (xs \<noteq> [])"
| "truthy (JObj kvs) = (kvs \<noteq> [])"

text \<open>
  The exceptions the client can raise. \<open>AttributeError\<close>: an attribute of \<^verbatim>\<open>None\<close> or of a
  value that has no such attribute; \<open>SessionClosedError\<close>: aiohttp's
  \<^verbatim>\<open>RuntimeError("Session is closed")\<close>; \<open>ClientError\<close>: a transport-level failure of
  aiohttp; \<open>JSONError\<close>: \<^verbatim>\<open>response.json()\<close> could not decode the body; \<open>KeyError\<close> and
  \<open>TypeError\<close>: a failed subscript; \<open>LoginFailed\<close>: the plain \<^verbatim>\<open>Exception\<close> that \<^verbatim>\<open>login\<close>
  raises itself (its message is the Chinese for "login failed").
\<close>

datatype error =
    AttributeError
  | SessionClosedError
  | ClientError
  | JSONError
  | KeyError string
  | TypeError
  | LoginFailed

text \<open>\<^verbatim>\<open>d.get(k)\<close>: only a dict has the method; a missing key gives \<^verbatim>\<open>None\<close>.\<close>

fun dict_get :: "json \<Rightarrow> string \<Rightarrow> error + json" where
  "dict_get (JObj kvs) k = Inr (case map_of kvs k of None \<Rightarrow> JNull | Some v \<Rightarrow> v)"
| "dict_get _ k = Inl AttributeError"

text \<open>\<^verbatim>\<open>d[k]\<close> with a string key: a dict raises \<^verbatim>\<open>KeyError\<close> on a missing key, every other
  decoded value raises \<^verbatim>\<open>TypeError\<close>.\<close>

fun subscript :: "json \<Rightarrow> string \<Rightarrow> error + json" where
  "subscript (JObj kvs) k = (case map_of kvs k of None \<Rightarrow> Inl (KeyError k) | Some v \<Rightarrow> Inr v)"
| "subscript _ k = Inl TypeError"

subsection \<open>The transport\<close>

datatype http_method = GET | POST

record request =
  meth :: http_method
  url :: string
  headers :: "(string \<times> string) list option"
  json_body :: "json option"

text \<open>
  What the transport gives back for one request: a failure below HTTP, or a response with
  its status and its body; the body is \<open>None\<close> when \<^verbatim>\<open>response.json()\<close> cannot decode it.
\<close>

record response =
  status :: nat
  body :: "json option"

datatype reply = NetworkFailure | Reply response

text \<open>The \<^verbatim>\<open>aiohttp.ClientSession\<close> object: open until \<^verbatim>\<open>close()\<close> is called on it.\<close>

datatype handle = Open | Closed

text \<open>
  The environment of the client: the remote service, whose reply to a request may depend
  on the requests the transport has carried before it, and Python's own \<^verbatim>\<open>str()\<close> of the
  values whose text the client never fixes (numbers, lists and dicts).
\<close>

record env =
  transport :: "request list \<Rightarrow> request \<Rightarrow> reply"
  py_repr :: "json \<Rightarrow> string"

text \<open>The text an f-string puts for a value: \<^verbatim>\<open>str(v)\<close>.\<close>

fun py_str :: "env \<Rightarrow> json \<Rightarrow> string" where
  "py_str E JNull = ''None''"
| "py_str E (JBool b) = (if b then ''True'' else ''False'')"
| "py_str E (JStr s) = s"
| "py_str E v = py_repr E v"

text \<open>
  \<^verbatim>\<open>class YYC3Client\<close>. The token slot holds whatever \<^verbatim>\<open>data["data"]["token"]\<close> was; Python's
  \<^verbatim>\<open>None\<close> is \<open>JNull\<close>. The session is \<^verbatim>\<open>None\<close> until \<^verbatim>\<open>__aenter__\<close> creates it.
\<close>

record client =
  base_url :: string
  token :: json
  session :: "handle option"

section \<open>Operations\<close>

text \<open>
  Every operation takes the list \<open>sent\<close> of the requests that have reached the
  transport so far, oldest first, and returns its result (\<open>Inl\<close> the exception raised),
  the client and that list afterwards. Console output is left out.
\<close>

type_synonym 'a run = "(error + 'a) \<times> client \<times> request list"

definition init_client :: "string \<Rightarrow> client" where
  "init_client b = \<lparr>base_url = b, token = JNull, session = None\<rparr>"

definition aenter :: "client \<Rightarrow> client" where
  "aenter c = c\<lparr>session := Some Open\<rparr>"

text \<open>\<^verbatim>\<open>ClientSession.close()\<close> closes an open session and does nothing on a closed one.\<close>

definition session_close :: "handle \<Rightarrow> handle" where
  "session_close h = (case h of Open \<Rightarrow> Closed | Closed \<Rightarrow> Closed)"

definition aexit :: "client \<Rightarrow> client" where
  "aexit c = (case session c of None \<Rightarrow> c | Some h \<Rightarrow> c\<lparr>session := Some (session_close h)\<rparr>)"

text \<open>
  \<^verbatim>\<open>self.session.post(...)\<close> and \<^verbatim>\<open>self.session.get(...)\<close>: the attribute access fails on
  \<^verbatim>\<open>None\<close>, a closed session refuses the request, an open one hands it to the transport.
\<close>

definition session_request ::
    "env \<Rightarrow> handle option \<Rightarrow> request \<Rightarrow> request list \<Rightarrow> (error + response) \<times> request list" where
  "session_request E s rq sent =
     (case s of
        None \<Rightarrow> (Inl AttributeError, sent)
      | Some Closed \<Rightarrow> (Inl SessionClosedError, sent)
      | Some Open \<Rightarrow>
          (case transport E sent rq of
             NetworkFailure \<Rightarrow> (Inl ClientError, sent @ [rq])
           | Reply r \<Rightarrow> (Inr r, sent @ [rq])))"

definition response_json :: "response \<Rightarrow> error + json" where
  "response_json r = (case body r of None \<Rightarrow> Inl JSONError | Some d \<Rightarrow> Inr d)"

definition login_request :: "client \<Rightarrow> string \<Rightarrow> string \<Rightarrow> request" where
  "login_request c email password =
     \<lparr>meth = POST, url = base_url c @ ''/api/v1/auth/login'', headers = None,
      json_body = Some (JObj [(''email'', JStr email), (''password'', JStr password)])\<rparr>"

definition login :: "env \<Rightarrow> client \<Rightarrow> string \<Rightarrow> string \<Rightarrow> request list \<Rightarrow> json run" where
  "login E c email password sent =
     (case session_request E (session c) (login_request c email password) sent of
        (Inl e, sent') \<Rightarrow> (Inl e, c, sent')
      | (Inr r, sent') \<Rightarrow>
          (case response_json r of
             Inl e \<Rightarrow> (Inl e, c, sent')
           | Inr data \<Rightarrow>
               (case dict_get data ''success'' of
                  Inl e \<Rightarrow> (Inl e, c, sent')
                | Inr ok \<Rightarrow>
                    if truthy ok then
                      (case subscript data ''data'' of
                         Inl e \<Rightarrow> (Inl e, c, sent')
                       | Inr d \<Rightarrow>
                           (case subscript d ''token'' of
                              Inl e \<Rightarrow> (Inl e, c, sent')
                            | Inr t \<Rightarrow> (Inr data, c\<lparr>token := t\<rparr>, sent')))
                    else (Inl LoginFailed, c, sent'))))"

definition get_headers :: "env \<Rightarrow> client \<Rightarrow> (string \<times> string) list" where
  "get_headers E c =
     [(''Content-Type'', ''application/json''),
      (''Authorization'', ''Bearer '' @ py_str E (token c))]"

text \<open>\<^verbatim>\<open>x or []\<close> for an optional list: \<^verbatim>\<open>None\<close> and the empty list both give the empty list.\<close>

definition or_empty :: "'a list option \<Rightarrow> 'a list" where
  "or_empty x = (case x of None \<Rightarrow> [] | Some xs \<Rightarrow> if xs = [] then [] else xs)"

definition reason_request ::
    "env \<Rightarrow> client \<Rightarrow> string \<Rightarrow> string list option \<Rightarrow> string list option \<Rightarrow>
     (string \<times> json) list option \<Rightarrow> request" where
  "reason_request E c context constraints objectives options =
     \<lparr>meth = POST, url = base_url c @ ''/api/v1/engine/reason'',
      headers = Some (get_headers E c),
      json_body = Some (JObj
        [(''context'', JStr context),
         (''constraints'', JArr (map JStr (or_empty constraints))),
         (''objectives'', JArr (map JStr (or_empty objectives))),
         (''options'', JObj (or_empty options))])\<rparr>"

definition generate_request :: "env \<Rightarrow> client \<Rightarrow> string \<Rightarrow> int \<Rightarrow> request" where
  "generate_request E c prompt max_tokens =
     \<lparr>meth = POST, url = base_url c @ ''/api/v1/model/generate'',
      headers = Some (get_headers E c),
      json_body = Some (JObj [(''prompt'', JStr prompt), (''maxTokens'', JInt max_tokens)])\<rparr>"

definition metrics_request :: "env \<Rightarrow> client \<Rightarrow> request" where
  "metrics_request E c =
     \<lparr>meth = GET, url = base_url c @ ''/api/v1/analytics/metrics'',
      headers = Some (get_headers E c), json_body = None\<rparr>"

definition learning_request :: "env \<Rightarrow> client \<Rightarrow> request" where
  "learning_request E c =
     \<lparr>meth = GET, url = base_url c @ ''/api/v1/learning/data'',
      headers = Some (get_headers E c), json_body = None\<rparr>"

text \<open>
  The body the four endpoint methods share, each written out in the source:
  \<^verbatim>\<open>async with self.session.<verb>(...) as response: data = await response.json(); return data\<close>.
\<close>

definition fetch_json :: "env \<Rightarrow> client \<Rightarrow> request \<Rightarrow> request list \<Rightarrow> json run" where
  "fetch_json E c rq sent =
     (case session_request E (session c) rq sent of
        (Inl e, sent') \<Rightarrow> (Inl e, c, sent')
      | (Inr r, sent') \<Rightarrow> (response_json r, c, sent'))"

definition reason ::
    "env \<Rightarrow> client \<Rightarrow> string \<Rightarrow> string list option \<Rightarrow> string list option \<Rightarrow>
     (string \<times> json) list option \<Rightarrow> request list \<Rightarrow> json run" where
  "reason E c context constraints objectives options sent =
     fetch_json E c (reason_request E c context constraints objectives options) sent"

definition generate_text :: "env \<Rightarrow> client \<Rightarrow> string \<Rightarrow> int \<Rightarrow> request list \<Rightarrow> json run" where
  "generate_text E c prompt max_tokens sent =
     fetch_json E c (generate_request E c prompt max_tokens) sent"

definition get_metrics :: "env \<Rightarrow> client \<Rightarrow> request list \<Rightarrow> json run" where
  "get_metrics E c sent = fetch_json E c (metrics_request E c) sent"

definition get_learning_data :: "env \<Rightarrow> client \<Rightarrow> request list \<Rightarrow> json run" where
  "get_learning_data E c sent = fetch_json E c (learning_request E c) sent"

subsection \<open>Scoped use of a client\<close>

text \<open>The calls a scope can make on its client, and a scope body that makes them one after
  the other; the first exception ends the body.\<close>

datatype call =
    Login string string
  | Reason string "string list option" "string list option" "(string \<times> json) list option"
  | GenerateText string int
  | GetMetrics
  | GetLearningData

fun perform :: "env \<Rightarrow> client \<Rightarrow> call \<Rightarrow> request list \<Rightarrow> json run" where
  "perform E c (Login email password) sent = login E c email password sent"
| "perform E c (Reason context constraints objectives options) sent =
     reason E c context constraints objectives options sent"
| "perform E c (GenerateText prompt max_tokens) sent = generate_text E c prompt max_tokens sent"
| "perform E c GetMetrics sent = get_metrics E c sent"
| "perform E c GetLearningData sent = get_learning_data E c sent"

fun run_calls :: "env \<Rightarrow> client \<Rightarrow> call list \<Rightarrow> request list \<Rightarrow> json list run" where
  "run_calls E c [] sent = (Inr [], c, sent)"
| "run_calls E c (k # ks) sent =
     (case perform E c k sent of
        (Inl e, c', sent') \<Rightarrow> (Inl e, c', sent')
      | (Inr d, c', sent') \<Rightarrow>
          (case run_calls E c' ks sent' of
             (Inl e, c'', sent'') \<Rightarrow> (Inl e, c'', sent'')
           | (Inr ds, c'', sent'') \<Rightarrow> (Inr (d # ds), c'', sent'')))"

text \<open>
  \<^verbatim>\<open>async with YYC3Client(b) as client: body\<close>: \<^verbatim>\<open>__aenter__\<close> on the new client, the body,
  then \<^verbatim>\<open>__aexit__\<close> whether the body returned or raised; \<^verbatim>\<open>__aexit__\<close> returns \<^verbatim>\<open>None\<close>, so
  an exception of the body goes on to the caller.
\<close>

definition async_with ::
    "string \<Rightarrow> (client \<Rightarrow> request list \<Rightarrow> 'a run) \<Rightarrow> request list \<Rightarrow> 'a run" where
  "async_with b scope_body sent =
     (case scope_body (aenter (init_client b)) sent of (r, c, sent') \<Rightarrow> (r, aexit c, sent'))"

subsection \<open>The concurrent batch\<close>

text \<open>
  \<^verbatim>\<open>asyncio.gather(*tasks)\<close> as \<^verbatim>\<open>advanced_example\<close> calls it, without
  \<^verbatim>\<open>return_exceptions\<close>. Each child runs its done-callback when it completes: the callback
  counts the child; if the outer future is still pending, a child that raised settles it
  with that exception, and the child that brings the count to the number of children
  settles it with the list of what every child gave, in the order of the children.
  \<open>children\<close> is what each child ends with, \<open>order\<close> the indices of the children in the
  order in which they complete; \<open>None\<close> is an outer future still pending.
\<close>

record 'a gather_state =
  nfinished :: nat
  outer :: "(error + (error + 'a) list) option"

definition done_callback ::
    "(error + 'a) list \<Rightarrow> nat \<Rightarrow> 'a gather_state \<Rightarrow> 'a gather_state" where
  "done_callback children i st =
     (if i < length children then
        (let st' = st\<lparr>nfinished := nfinished st + 1\<rparr> in
         case outer st' of
           Some _ \<Rightarrow> st'
         | None \<Rightarrow>
             (case children ! i of
                Inl exc \<Rightarrow> st'\<lparr>outer := Some (Inl exc)\<rparr>
              | Inr _ \<Rightarrow>
                  if nfinished st' = length children
                  then st'\<lparr>outer := Some (Inr children)\<rparr> else st'))
      else st)"

definition gather :: "(error + 'a) list \<Rightarrow> nat list \<Rightarrow> (error + (error + 'a) list) option" where
  "gather children order =
     (if children = [] then Some (Inr [])
      else outer (fold (done_callback children) order \<lparr>nfinished = 0, outer = None\<rparr>))"

text \<open>
  The arguments of one \<^verbatim>\<open>client.reason(...)\<close> call, and the start of the tasks: every
  coroutine of the list is started, in the order of the list, and hands its request to the
  transport then; a coroutine that raises does not keep the later ones from starting.
\<close>

type_synonym reason_args =
  "string \<times> string list option \<times> string list option \<times> (string \<times> json) list option"

fun start_tasks ::
    "env \<Rightarrow> client \<Rightarrow> reason_args list \<Rightarrow> request list \<Rightarrow>
     (error + json) list \<times> client \<times> request list" where
  "start_tasks E c [] sent = ([], c, sent)"
| "start_tasks E c ((context, constraints, objectives, options) # rest) sent =
     (case reason E c context constraints objectives options sent of
        (r, c', sent') \<Rightarrow>
          (case start_tasks E c' rest sent' of
             (rs, c'', sent'') \<Rightarrow> (r # rs, c'', sent'')))"

text \<open>\<^verbatim>\<open>results = await asyncio.gather(*tasks)\<close> over a list of \<^verbatim>\<open>client.reason\<close> calls.\<close>

definition reason_all ::
    "env \<Rightarrow> client \<Rightarrow> reason_args list \<Rightarrow> nat list \<Rightarrow> request list \<Rightarrow>
     (error + (error + json) list) option \<times> client \<times> request list" where
  "reason_all E c tasks order sent =
     (case start_tasks E c tasks sent of
        (children, c', sent') \<Rightarrow> (gather children order, c', sent'))"

text \<open>
  The three tasks of \<^verbatim>\<open>advanced_example\<close>: scenario \<open>i\<close> of \<^verbatim>\<open>range(3)\<close>, the same two
  constraints and two objectives each time, no options. The literals are not ASCII and are
  taken as parameters: \<open>scenario i\<close> is the context of task \<open>i\<close>.
\<close>

definition advanced_tasks :: "(nat \<Rightarrow> string) \<Rightarrow> string list \<Rightarrow> string list \<Rightarrow> reason_args list" where
  "advanced_tasks scenario constraints objectives =
     map (\<lambda>i. (scenario i, Some constraints, Some objectives, None)) [0..<3]"

section \<open>Notions used in the statements\<close>

text \<open>The request a call hands to the transport, and the calls that attach
  \<^verbatim>\<open>headers=self._get_headers()\<close>: all but \<^verbatim>\<open>login\<close>.\<close>

fun call_request :: "env \<Rightarrow> client \<Rightarrow> call \<Rightarrow> request" where
  "call_request E c (Login email password) = login_request c email password"
| "call_request E c (Reason context constraints objectives options) =
     reason_request E c context constraints objectives options"
| "call_request E c (GenerateText prompt max_tokens) = generate_request E c prompt max_tokens"
| "call_request E c GetMetrics = metrics_request E c"
| "call_request E c GetLearningData = learning_request E c"

fun authenticated :: "call \<Rightarrow> bool" where
  "authenticated (Login email password) = False"
| "authenticated k = True"

text \<open>What an endpoint method ends with once the transport has given its reply.\<close>

definition transport_result :: "reply \<Rightarrow> error + json" where
  "transport_result rp =
     (case rp of NetworkFailure \<Rightarrow> Inl ClientError | Reply r \<Rightarrow> response_json r)"

text \<open>The request of a task of the batch, and the reply the transport gives to task \<open>i\<close>
  when the tasks before it have handed over their requests.\<close>

definition task_request :: "env \<Rightarrow> client \<Rightarrow> reason_args \<Rightarrow> request" where
  "task_request E c args =
     (case args of (context, constraints, objectives, options) \<Rightarrow>
        reason_request E c context constraints objectives options)"

definition task_reply :: "env \<Rightarrow> client \<Rightarrow> reason_args list \<Rightarrow> request list \<Rightarrow> nat \<Rightarrow> reply" where
  "task_reply E c tasks sent i =
     transport E (sent @ map (task_request E c) (take i tasks)) (task_request E c (tasks ! i))"

subsection \<open>Sample environments and inputs\<close>

definition const_env :: "reply \<Rightarrow> env" where
  "const_env rp = \<lparr>transport = (\<lambda>sent rq. rp), py_repr = (\<lambda>v. [])\<rparr>"

text \<open>A transport that fails on the first request it carries and answers every later one.\<close>

definition first_fails_env :: "response \<Rightarrow> env" where
  "first_fails_env r =
     \<lparr>transport = (\<lambda>sent rq. if sent = [] then NetworkFailure else Reply r),
      py_repr = (\<lambda>v. [])\<rparr>"

definition token_body :: "bool \<Rightarrow> string \<Rightarrow> json" where
  "token_body ok t = JObj [(''success'', JBool ok), (''data'', JObj [(''token'', JStr t)])]"

definition answer :: "nat \<Rightarrow> json \<Rightarrow> response" where
  "answer st d = \<lparr>status = st, body = Some d\<rparr>"

definition local_client :: "json \<Rightarrow> handle option \<Rightarrow> client" where
  "local_client t s = \<lparr>base_url = ''http://localhost:3200'', token = t, session = s\<rparr>"

text \<open>A service that answers every request with status 200 and the request's own JSON
  body.\<close>

definition echo_env :: env where
  "echo_env =
     \<lparr>transport = (\<lambda>sent rq. Reply \<lparr>status = 200, body = json_body rq\<rparr>),
      py_repr = (\<lambda>v. [])\<rparr>"

definition sample_tasks :: "reason_args list" where
  "sample_tasks =
     advanced_tasks (\<lambda>i. [''scenario 0'', ''scenario 1'', ''scenario 2''] ! i)
       [''time'', ''budget''] [''speed'', ''quality'']"

definition sample_body :: "string \<Rightarrow> json" where
  "sample_body scenario =
     JObj [(''context'', JStr scenario),
           (''constraints'', JArr [JStr ''time'', JStr ''budget'']),
           (''objectives'', JArr [JStr ''speed'', JStr ''quality'']),
           (''options'', JObj [])]"

section \<open>Properties\<close>

subsection \<open>Endpoint methods\<close>

lemma fetch_json_unfold:
  "fetch_json E c rq sent =
     (case session c of
        None \<Rightarrow> (Inl AttributeError, c, sent)
      | Some Closed \<Rightarrow> (Inl SessionClosedError, c, sent)
      | Some Open \<Rightarrow> (transport_result (transport E sent rq), c, sent @ [rq]))"
  by (simp add: fetch_json_def session_request_def transport_result_def
      split: option.splits handle.splits reply.splits)

lemma fetch_json_open:
  "session c = Some Open \<Longrightarrow>
     fetch_json E c rq sent = (transport_result (transport E sent rq), c, sent @ [rq])"
  by (simp add: fetch_json_unfold)

lemma perform_authenticated:
  "authenticated k \<Longrightarrow> perform E c k sent = fetch_json E c (call_request E c k) sent"
  by (cases k) (simp_all add: reason_def generate_text_def get_metrics_def get_learning_data_def)

lemma headers_authenticated:
  "authenticated k \<Longrightarrow> headers (call_request E c k) = Some (get_headers E c)"
  by (cases k)
     (simp_all add: reason_request_def generate_request_def metrics_request_def
        learning_request_def)

lemmas endpoint_defs = reason_def generate_text_def get_metrics_def get_learning_data_def

lemmas request_defs =
  reason_request_def generate_request_def metrics_request_def learning_request_def

text \<open>
  C1, as amended. A client whose token slot is empty meets no authentication check: on an
  open session each of the four endpoint methods hands its request to the transport, and
  the call ends with what the transport's reply gives (the decoded body, or the transport
  or decoding failure); the client is unchanged.
\<close>

theorem no_token_call_reaches_transport:
  assumes "token c = JNull" and "session c = Some Open"
  shows "reason E c x cs os opts sent =
           (transport_result (transport E sent (reason_request E c x cs os opts)), c,
            sent @ [reason_request E c x cs os opts]) \<and>
         generate_text E c p n sent =
           (transport_result (transport E sent (generate_request E c p n)), c,
            sent @ [generate_request E c p n]) \<and>
         get_metrics E c sent =
           (transport_result (transport E sent (metrics_request E c)), c,
            sent @ [metrics_request E c]) \<and>
         get_learning_data E c sent =
           (transport_result (transport E sent (learning_request E c)), c,
            sent @ [learning_request E c])"
  using assms by (simp add: endpoint_defs fetch_json_open)

theorem no_token_call_reaches_transport_witness:
  "token (local_client JNull (Some Open)) = JNull \<and>
   session (local_client JNull (Some Open)) = Some Open \<and>
   get_metrics (const_env (Reply (answer 200 (token_body True ''T1''))))
       (local_client JNull (Some Open)) [] =
     (Inr (token_body True ''T1''), local_client JNull (Some Open),
      [metrics_request (const_env (Reply (answer 200 (token_body True ''T1''))))
         (local_client JNull (Some Open))])"
  using no_token_call_reaches_transport
    [of "local_client JNull (Some Open)"
        "const_env (Reply (answer 200 (token_body True ''T1'')))" "[]" None None None "[]" "[]" 0]
  by (simp add: local_client_def const_env_def transport_result_def response_json_def answer_def)

text \<open>
  C1 as stated fails: a client that never logged in calls \<^verbatim>\<open>get_metrics\<close> on an open
  session; the request reaches the transport and the call returns the body.
\<close>

theorem no_token_call_counterexample:
  "fst (get_metrics (const_env (Reply (answer 200 (token_body True ''T1''))))
          (local_client JNull (Some Open)) []) = Inr (token_body True ''T1'') \<and>
   length (snd (snd (get_metrics (const_env (Reply (answer 200 (token_body True ''T1''))))
          (local_client JNull (Some Open)) []))) = 1"
  by (simp add: get_metrics_def fetch_json_unfold local_client_def const_env_def
      transport_result_def response_json_def answer_def)

text \<open>
  C4, as amended. For every dispatched request on an open session that the transport
  answers with a decodable body, the call returns that body as it is, whatever the HTTP
  status and whatever the body's success marker; the client raises nothing of its own.
\<close>

theorem dispatch_returns_body_unclassified:
  assumes "authenticated k" and "session c = Some Open"
    and "transport E sent (call_request E c k) = Reply r" and "body r = Some d"
  shows "perform E c k sent = (Inr d, c, sent @ [call_request E c k])"
  using assms
  by (simp add: perform_authenticated fetch_json_open transport_result_def response_json_def)

theorem dispatch_returns_body_unclassified_witness:
  "authenticated GetLearningData \<and>
   session (local_client (JStr ''T1'') (Some Open)) = Some Open \<and>
   transport (const_env (Reply (answer 404 (token_body False ''T0''))))
     [] (call_request (const_env (Reply (answer 404 (token_body False ''T0''))))
           (local_client (JStr ''T1'') (Some Open)) GetLearningData)
     = Reply (answer 404 (token_body False ''T0'')) \<and>
   body (answer 404 (token_body False ''T0'')) = Some (token_body False ''T0'') \<and>
   fst (perform (const_env (Reply (answer 404 (token_body False ''T0''))))
          (local_client (JStr ''T1'') (Some Open)) GetLearningData [])
     = Inr (token_body False ''T0'')"
  using dispatch_returns_body_unclassified
    [of GetLearningData "local_client (JStr ''T1'') (Some Open)"
        "const_env (Reply (answer 404 (token_body False ''T0'')))" "[]"
        "answer 404 (token_body False ''T0'')" "token_body False ''T0''"]
  by (simp add: local_client_def const_env_def answer_def)

text \<open>
  C4 as stated fails: the service answers \<^verbatim>\<open>get_metrics\<close> with status 500 and a body
  whose success marker is false; the call returns that body as its result.
\<close>

theorem dispatch_api_error_counterexample:
  "get_metrics (const_env (Reply (answer 500 (JObj [(''success'', JBool False)]))))
     (local_client (JStr ''T1'') (Some Open)) [] =
   (Inr (JObj [(''success'', JBool False)]), local_client (JStr ''T1'') (Some Open),
    [metrics_request (const_env (Reply (answer 500 (JObj [(''success'', JBool False)]))))
       (local_client (JStr ''T1'') (Some Open))])"
  by (simp add: get_metrics_def fetch_json_unfold local_client_def const_env_def
      transport_result_def response_json_def answer_def)

text \<open>
  C9. A call of \<^verbatim>\<open>reason\<close>, \<^verbatim>\<open>generate_text\<close>, \<^verbatim>\<open>get_metrics\<close> or \<^verbatim>\<open>get_learning_data\<close>
  leaves the client, and so its token slot, as it was, whether it returns or raises, and
  hands the transport its one request at most once.
\<close>

theorem dispatch_keeps_token_no_retry:
  "fst (snd (reason E c x cs os opts sent)) = c \<and>
   token (fst (snd (reason E c x cs os opts sent))) = token c \<and>
   snd (snd (reason E c x cs os opts sent)) \<in> {sent, sent @ [reason_request E c x cs os opts]} \<and>
   fst (snd (generate_text E c p n sent)) = c \<and>
   token (fst (snd (generate_text E c p n sent))) = token c \<and>
   snd (snd (generate_text E c p n sent)) \<in> {sent, sent @ [generate_request E c p n]} \<and>
   fst (snd (get_metrics E c sent)) = c \<and>
   token (fst (snd (get_metrics E c sent))) = token c \<and>
   snd (snd (get_metrics E c sent)) \<in> {sent, sent @ [metrics_request E c]} \<and>
   fst (snd (get_learning_data E c sent)) = c \<and>
   token (fst (snd (get_learning_data E c sent))) = token c \<and>
   snd (snd (get_learning_data E c sent)) \<in> {sent, sent @ [learning_request E c]}"
  by (simp add: endpoint_defs fetch_json_unfold split: option.splits handle.splits)

theorem dispatch_keeps_token_no_retry_witness:
  "token (fst (snd (get_metrics (const_env NetworkFailure) (local_client (JStr ''T1'') (Some Open)) [])))
     = JStr ''T1'' \<and>
   token (fst (snd (reason (const_env (Reply (answer 200 (token_body True ''T2''))))
     (local_client (JStr ''T1'') (Some Open)) ''x'' None None None []))) = JStr ''T1''"
  using dispatch_keeps_token_no_retry
    [of "const_env NetworkFailure" "local_client (JStr ''T1'') (Some Open)"]
    dispatch_keeps_token_no_retry
    [of "const_env (Reply (answer 200 (token_body True ''T2'')))"
        "local_client (JStr ''T1'') (Some Open)" "''x''" None None None "[]"]
  by (simp add: local_client_def)

text \<open>
  C10. With an empty token slot \<^verbatim>\<open>_get_headers\<close> gives the Authorization header the text
  \<^verbatim>\<open>Bearer None\<close>, and on an open session each endpoint method hands the transport a
  request that carries that header.
\<close>

theorem empty_slot_sends_bearer_none:
  assumes "token c = JNull"
  shows "get_headers E c =
           [(''Content-Type'', ''application/json''), (''Authorization'', ''Bearer None'')] \<and>
         (session c = Some Open \<longrightarrow>
            snd (snd (reason E c x cs os opts sent)) = sent @ [reason_request E c x cs os opts] \<and>
            headers (reason_request E c x cs os opts) = Some (get_headers E c) \<and>
            snd (snd (generate_text E c p n sent)) = sent @ [generate_request E c p n] \<and>
            headers (generate_request E c p n) = Some (get_headers E c) \<and>
            snd (snd (get_metrics E c sent)) = sent @ [metrics_request E c] \<and>
            headers (metrics_request E c) = Some (get_headers E c) \<and>
            snd (snd (get_learning_data E c sent)) = sent @ [learning_request E c] \<and>
            headers (learning_request E c) = Some (get_headers E c))"
  using assms by (simp add: endpoint_defs fetch_json_open request_defs get_headers_def)

theorem empty_slot_sends_bearer_none_witness:
  "token (aenter (init_client ''http://localhost:3200'')) = JNull \<and>
   session (aenter (init_client ''http://localhost:3200'')) = Some Open \<and>
   map headers (snd (snd (get_metrics (const_env NetworkFailure)
       (aenter (init_client ''http://localhost:3200'')) []))) =
     [Some [(''Content-Type'', ''application/json''), (''Authorization'', ''Bearer None'')]]"
  using empty_slot_sends_bearer_none
    [of "aenter (init_client ''http://localhost:3200'')" "const_env NetworkFailure"]
  by (simp add: aenter_def init_client_def)

subsection \<open>Login\<close>

lemma login_open:
  "session c = Some Open \<Longrightarrow> transport E sent (login_request c email password) = Reply r \<Longrightarrow>
   body r = Some data \<Longrightarrow> dict_get data ''success'' = Inr ok \<Longrightarrow>
   login E c email password sent =
     (if truthy ok then
        (case subscript data ''data'' of
           Inl e \<Rightarrow> (Inl e, c, sent @ [login_request c email password])
         | Inr d \<Rightarrow>
             (case subscript d ''token'' of
                Inl e \<Rightarrow> (Inl e, c, sent @ [login_request c email password])
              | Inr t \<Rightarrow> (Inr data, c\<lparr>token := t\<rparr>, sent @ [login_request c email password])))
      else (Inl LoginFailed, c, sent @ [login_request c email password]))"
  by (simp add: login_def session_request_def response_json_def)

lemma login_returns_inv:
  assumes "login E c email password sent = (Inr data, c1, sent1)"
  shows "session c = Some Open \<and> sent1 = sent @ [login_request c email password] \<and>
         (\<exists>d t. subscript data ''data'' = Inr d \<and> subscript d ''token'' = Inr t \<and>
                c1 = c\<lparr>token := t\<rparr>)"
  using assms
  by (auto simp: login_def session_request_def
      split: option.splits handle.splits reply.splits sum.splits if_splits prod.splits)

lemma login_session:
  "session (fst (snd (login E c email password sent))) = session c"
  by (auto simp: login_def split: prod.splits sum.splits if_splits)




text \<open>
  C5, as amended. When the transport answers a login with a decodable body whose
  \<^verbatim>\<open>success\<close> entry is true in Python's sense and that has a token at \<^verbatim>\<open>data.token\<close>,
  \<^verbatim>\<open>login\<close> has sent one POST to the fixed login path with the JSON body
  \<^verbatim>\<open>{email, password}\<close> and no headers of its own, stores that token in the slot in place
  of whatever was there, and returns the whole decoded body.
\<close>

theorem login_success_stores_token_returns_body:
  assumes "session c = Some Open"
    and "transport E sent (login_request c email password) = Reply r"
    and "body r = Some data" and "dict_get data ''success'' = Inr ok" and "truthy ok"
    and "subscript data ''data'' = Inr d" and "subscript d ''token'' = Inr t"
  shows "login E c email password sent =
           (Inr data, c\<lparr>token := t\<rparr>, sent @ [login_request c email password]) \<and>
         login_request c email password =
           \<lparr>meth = POST, url = base_url c @ ''/api/v1/auth/login'', headers = None,
            json_body = Some (JObj [(''email'', JStr email), (''password'', JStr password)])\<rparr>"
  using assms by (simp add: login_open login_request_def)

theorem login_success_stores_token_returns_body_witness:
  "session (local_client (JStr ''T0'') (Some Open)) = Some Open \<and>
   transport (const_env (Reply (answer 200 (token_body True ''T1'')))) []
     (login_request (local_client (JStr ''T0'') (Some Open)) ''a@x.com'' ''p'')
     = Reply (answer 200 (token_body True ''T1'')) \<and>
   body (answer 200 (token_body True ''T1'')) = Some (token_body True ''T1'') \<and>
   dict_get (token_body True ''T1'') ''success'' = Inr (JBool True) \<and>
   truthy (JBool True) \<and>
   subscript (token_body True ''T1'') ''data'' = Inr (JObj [(''token'', JStr ''T1'')]) \<and>
   subscript (JObj [(''token'', JStr ''T1'')]) ''token'' = Inr (JStr ''T1'') \<and>
   login (const_env (Reply (answer 200 (token_body True ''T1''))))
       (local_client (JStr ''T0'') (Some Open)) ''a@x.com'' ''p'' [] =
     (Inr (token_body True ''T1''), local_client (JStr ''T1'') (Some Open),
      [login_request (local_client (JStr ''T0'') (Some Open)) ''a@x.com'' ''p''])"
  using login_success_stores_token_returns_body
    [of "local_client (JStr ''T0'') (Some Open)"
        "const_env (Reply (answer 200 (token_body True ''T1'')))" "[]" "''a@x.com''" "''p''"
        "answer 200 (token_body True ''T1'')" "token_body True ''T1''" "JBool True"
        "JObj [(''token'', JStr ''T1'')]" "JStr ''T1''"]
  by (simp add: local_client_def const_env_def answer_def token_body_def)

text \<open>
  C5 as stated fails on the returned value: the login below stores the token \<^verbatim>\<open>T1\<close> and
  returns the whole body, which is not that token.
\<close>

theorem login_returns_body_counterexample:
  "token (fst (snd (login (const_env (Reply (answer 200 (token_body True ''T1''))))
          (local_client JNull (Some Open)) ''a@x.com'' ''p'' []))) = JStr ''T1'' \<and>
   fst (login (const_env (Reply (answer 200 (token_body True ''T1''))))
          (local_client JNull (Some Open)) ''a@x.com'' ''p'' [])
     = Inr (JObj [(''success'', JBool True), (''data'', JObj [(''token'', JStr ''T1'')])]) \<and>
   fst (login (const_env (Reply (answer 200 (token_body True ''T1''))))
          (local_client JNull (Some Open)) ''a@x.com'' ''p'' []) \<noteq> Inr (JStr ''T1'')"
  by (simp add: login_def session_request_def response_json_def local_client_def const_env_def
      answer_def token_body_def)

text \<open>
  C6. After a \<^verbatim>\<open>login\<close> that returned, the body it returned has a token at
  \<^verbatim>\<open>data.token\<close>, and any authenticated call made next hands the transport one request
  whose headers are \<^verbatim>\<open>Content-Type: application/json\<close> and \<^verbatim>\<open>Authorization: Bearer\<close>
  followed by that token (the text of the token itself when it is a string). The call
  fails at nothing of the client's own: it ends with what the transport's reply gives,
  which is the decoded body whenever the service answers with one.
\<close>

theorem login_then_call_sends_bearer_token:
  assumes "login E c email password sent = (Inr data, c1, sent1)" and "authenticated k"
  shows "\<exists>d t. subscript data ''data'' = Inr d \<and> subscript d ''token'' = Inr t \<and>
           token c1 = t \<and>
           snd (snd (perform E c1 k sent1)) = sent1 @ [call_request E c1 k] \<and>
           headers (call_request E c1 k) =
             Some [(''Content-Type'', ''application/json''),
                   (''Authorization'', ''Bearer '' @ py_str E t)] \<and>
           (\<forall>s. t = JStr s \<longrightarrow>
              headers (call_request E c1 k) =
                Some [(''Content-Type'', ''application/json''), (''Authorization'', ''Bearer '' @ s)]) \<and>
           fst (perform E c1 k sent1) = transport_result (transport E sent1 (call_request E c1 k)) \<and>
           (\<forall>r b. transport E sent1 (call_request E c1 k) = Reply r \<longrightarrow> body r = Some b \<longrightarrow>
              fst (perform E c1 k sent1) = Inr b)"
proof -
  from assms(1) obtain d t where
    op: "session c = Some Open" and d: "subscript data ''data'' = Inr d"
    and t: "subscript d ''token'' = Inr t" and c1: "c1 = c\<lparr>token := t\<rparr>"
    using login_returns_inv by blast
  have s1: "session c1 = Some Open" using op c1 by simp
  have run: "perform E c1 k sent1 =
      (transport_result (transport E sent1 (call_request E c1 k)), c1, sent1 @ [call_request E c1 k])"
    using assms(2) s1 by (simp add: perform_authenticated fetch_json_open)
  have hd: "headers (call_request E c1 k) =
      Some [(''Content-Type'', ''application/json''), (''Authorization'', ''Bearer '' @ py_str E t)]"
    using assms(2) c1 by (simp add: headers_authenticated get_headers_def)
  have ok: "\<forall>r b. transport E sent1 (call_request E c1 k) = Reply r \<longrightarrow> body r = Some b \<longrightarrow>
      fst (perform E c1 k sent1) = Inr b"
    by (simp add: run transport_result_def response_json_def)
  have str: "\<forall>s. t = JStr s \<longrightarrow> headers (call_request E c1 k) =
      Some [(''Content-Type'', ''application/json''), (''Authorization'', ''Bearer '' @ s)]"
    using hd by simp
  have tok: "token c1 = t" using c1 by simp
  have snt: "snd (snd (perform E c1 k sent1)) = sent1 @ [call_request E c1 k]"
    and res: "fst (perform E c1 k sent1) = transport_result (transport E sent1 (call_request E c1 k))"
    by (simp_all add: run)
  from d t tok snt hd str res ok show ?thesis by blast
qed

theorem login_then_call_sends_bearer_token_witness:
  "login (const_env (Reply (answer 200 (token_body True ''T1''))))
       (local_client JNull (Some Open)) ''a@x.com'' ''p'' [] =
     (Inr (token_body True ''T1''), local_client (JStr ''T1'') (Some Open),
      [login_request (local_client JNull (Some Open)) ''a@x.com'' ''p'']) \<and>
   authenticated GetMetrics \<and>
   headers (call_request (const_env (Reply (answer 200 (token_body True ''T1''))))
       (local_client (JStr ''T1'') (Some Open)) GetMetrics) =
     Some [(''Content-Type'', ''application/json''), (''Authorization'', ''Bearer T1'')] \<and>
   fst (perform (const_env (Reply (answer 200 (token_body True ''T1''))))
       (local_client (JStr ''T1'') (Some Open)) GetMetrics
       [login_request (local_client JNull (Some Open)) ''a@x.com'' ''p''])
     = Inr (token_body True ''T1'')"
proof -
  let ?E = "const_env (Reply (answer 200 (token_body True ''T1'')))"
  let ?c = "local_client JNull (Some Open)"
  let ?c1 = "local_client (JStr ''T1'') (Some Open)"
  let ?sent1 = "[login_request ?c ''a@x.com'' ''p'']"
  have lg: "login ?E ?c ''a@x.com'' ''p'' [] = (Inr (token_body True ''T1''), ?c1, ?sent1)"
    by (simp add: login_def session_request_def response_json_def local_client_def const_env_def
        answer_def token_body_def)
  have au: "authenticated GetMetrics" by simp
  from login_then_call_sends_bearer_token [OF lg au]
  obtain d t where d: "subscript (token_body True ''T1'') ''data'' = Inr d"
    and t: "subscript d ''token'' = Inr t"
    and hd: "headers (call_request ?E ?c1 GetMetrics) =
      Some [(''Content-Type'', ''application/json''), (''Authorization'', ''Bearer '' @ py_str ?E t)]"
    and ok: "\<forall>r b. transport ?E ?sent1 (call_request ?E ?c1 GetMetrics) = Reply r \<longrightarrow>
      body r = Some b \<longrightarrow> fst (perform ?E ?c1 GetMetrics ?sent1) = Inr b"
    by blast
  from d t have "t = JStr ''T1''" by (auto simp: token_body_def)
  with hd have h: "headers (call_request ?E ?c1 GetMetrics) =
      Some [(''Content-Type'', ''application/json''), (''Authorization'', ''Bearer T1'')]"
    by simp
  have "transport ?E ?sent1 (call_request ?E ?c1 GetMetrics) = Reply (answer 200 (token_body True ''T1''))"
    by (simp add: const_env_def)
  moreover have "body (answer 200 (token_body True ''T1'')) = Some (token_body True ''T1'')"
    by (simp add: answer_def)
  ultimately have r: "fst (perform ?E ?c1 GetMetrics ?sent1) = Inr (token_body True ''T1'')"
    using ok by blast
  from lg au h r show ?thesis by blast
qed

subsection \<open>The gathered batch\<close>

lemma done_callback_settled:
  "outer st = Some x \<Longrightarrow> outer (done_callback ch i st) = Some x"
  by (simp add: done_callback_def Let_def)

lemma fold_done_settled:
  "outer st = Some x \<Longrightarrow> outer (fold (done_callback ch) xs st) = Some x"
  by (induction xs arbitrary: st) (simp_all add: done_callback_settled)

lemma done_callback_pending:
  "outer st = None \<Longrightarrow> i < length ch \<Longrightarrow> ch ! i = Inr v \<Longrightarrow> Suc (nfinished st) < length ch \<Longrightarrow>
     done_callback ch i st = st\<lparr>nfinished := Suc (nfinished st)\<rparr>"
  by (simp add: done_callback_def Let_def)

lemma fold_done_pending:
  "outer st = None \<Longrightarrow> \<forall>i\<in>set xs. i < length ch \<and> (\<exists>v. ch ! i = Inr v) \<Longrightarrow>
     nfinished st + length xs < length ch \<Longrightarrow>
     fold (done_callback ch) xs st = st\<lparr>nfinished := nfinished st + length xs\<rparr>"
proof (induction xs arbitrary: st)
  case Nil
  then show ?case by simp
next
  case (Cons i xs)
  let ?st1 = "st\<lparr>nfinished := Suc (nfinished st)\<rparr>"
  from Cons.prems obtain v where v: "ch ! i = Inr v" by auto
  have step: "done_callback ch i st = ?st1"
    using Cons.prems v by (intro done_callback_pending) auto
  have "fold (done_callback ch) xs ?st1 = ?st1\<lparr>nfinished := nfinished ?st1 + length xs\<rparr>"
    using Cons.prems by (intro Cons.IH) auto
  then show ?case by (simp add: step)
qed

lemma done_callback_raises:
  "outer st = None \<Longrightarrow> i < length ch \<Longrightarrow> ch ! i = Inl e \<Longrightarrow>
     outer (done_callback ch i st) = Some (Inl e)"
  by (simp add: done_callback_def Let_def)

lemma done_callback_last:
  "outer st = None \<Longrightarrow> i < length ch \<Longrightarrow> ch ! i = Inr v \<Longrightarrow> Suc (nfinished st) = length ch \<Longrightarrow>
     outer (done_callback ch i st) = Some (Inr ch)"
  by (simp add: done_callback_def Let_def)

lemma distinct_bounded_length:
  assumes "distinct xs" and "\<forall>i\<in>set xs. i < (n::nat)"
  shows "length xs \<le> n"
proof -
  have "card (set xs) \<le> card {..<n}"
    using assms(2) by (intro card_mono) auto
  then show ?thesis using assms(1) by (simp add: distinct_card)
qed

lemma gather_first_failure:
  assumes ord: "order = pre @ i # post"
    and dist: "distinct order"
    and rng: "\<forall>j\<in>set order. j < length ch"
    and ok: "\<forall>j\<in>set pre. \<exists>v. ch ! j = Inr v"
    and bad: "ch ! i = Inl e"
  shows "gather ch order = Some (Inl e)"
proof -
  let ?st0 = "\<lparr>nfinished = 0, outer = None\<rparr> :: 'a gather_state"
  have i: "i < length ch" using ord rng by simp
  have "length order \<le> length ch"
    using dist rng by (rule distinct_bounded_length)
  then have pre: "length pre < length ch" using ord by simp
  have "fold (done_callback ch) pre ?st0 = ?st0\<lparr>nfinished := nfinished ?st0 + length pre\<rparr>"
    using ok rng ord pre by (intro fold_done_pending) auto
  then have "outer (fold (done_callback ch) pre ?st0) = None" by simp
  then have "outer (done_callback ch i (fold (done_callback ch) pre ?st0)) = Some (Inl e)"
    using i bad by (rule done_callback_raises)
  then have "outer (fold (done_callback ch) order ?st0) = Some (Inl e)"
    by (simp add: ord fold_done_settled)
  moreover have "ch \<noteq> []" using i by auto
  ultimately show ?thesis by (simp add: gather_def)
qed

lemma gather_all_returned:
  assumes dist: "distinct order"
    and rng: "set order = {..<length ch}"
    and ok: "\<forall>i<length ch. \<exists>v. ch ! i = Inr v"
  shows "gather ch order = Some (Inr ch)"
proof (cases "ch = []")
  case True
  then show ?thesis by (simp add: gather_def)
next
  case False
  let ?st0 = "\<lparr>nfinished = 0, outer = None\<rparr> :: 'a gather_state"
  have len: "length order = length ch"
    using dist rng by (metis card_lessThan distinct_card)
  with False have "order \<noteq> []" by auto
  then obtain pre i where ord: "order = pre @ [i]"
    by (metis rev_exhaust)
  have valid: "\<forall>j\<in>set order. j < length ch \<and> (\<exists>v. ch ! j = Inr v)"
    using rng ok by auto
  have "fold (done_callback ch) pre ?st0 = ?st0\<lparr>nfinished := nfinished ?st0 + length pre\<rparr>"
    using valid ord len by (intro fold_done_pending) auto
  then have st: "fold (done_callback ch) pre ?st0 = \<lparr>nfinished = length pre, outer = None\<rparr>"
    by simp
  from valid ord obtain v where v: "ch ! i = Inr v" and i: "i < length ch"
    by auto
  have "outer (done_callback ch i \<lparr>nfinished = length pre, outer = None\<rparr>) = Some (Inr ch)"
    using i v ord len by (intro done_callback_last) auto
  then show ?thesis using False by (simp add: gather_def ord st)
qed

lemma start_tasks_length: "length (fst (start_tasks E c tasks sent)) = length tasks"
proof (induction tasks arbitrary: c sent)
  case Nil
  show ?case by simp
next
  case (Cons a tasks)
  obtain x cs os opts where a: "a = (x, cs, os, opts)" by (cases a) auto
  show ?case using Cons.IH by (simp add: a split: prod.splits) (metis fst_conv)
qed

lemma task_reply_Cons:
  "task_reply E c (a # tasks) sent (Suc i) = task_reply E c tasks (sent @ [task_request E c a]) i"
  by (simp add: task_reply_def)

lemma start_tasks_open:
  "session c = Some Open \<Longrightarrow>
     start_tasks E c tasks sent =
       (map (\<lambda>i. transport_result (task_reply E c tasks sent i)) [0..<length tasks], c,
        sent @ map (task_request E c) tasks)"
proof (induction tasks arbitrary: sent)
  case Nil
  show ?case by simp
next
  case (Cons a tasks)
  obtain x cs os opts where a: "a = (x, cs, os, opts)" by (cases a) auto
  let ?rq = "task_request E c a"
  have r: "reason E c x cs os opts sent = (transport_result (transport E sent ?rq), c, sent @ [?rq])"
    using Cons.prems by (simp add: reason_def fetch_json_open task_request_def a)
  have first: "transport E sent ?rq = task_reply E c (a # tasks) sent 0"
    by (simp add: task_reply_def)
  have idx: "[0..<length (a # tasks)] = 0 # map Suc [0..<length tasks]"
    by (simp add: upt_conv_Cons map_Suc_upt del: upt_Suc)
  have rest: "start_tasks E c tasks (sent @ [?rq]) =
      (map (\<lambda>i. transport_result (task_reply E c tasks (sent @ [?rq]) i)) [0..<length tasks], c,
       (sent @ [?rq]) @ map (task_request E c) tasks)"
    using Cons.prems by (rule Cons.IH)
  have "start_tasks E c (a # tasks) sent =
      (transport_result (transport E sent ?rq) #
         map (\<lambda>i. transport_result (task_reply E c tasks (sent @ [?rq]) i)) [0..<length tasks], c,
       (sent @ [?rq]) @ map (task_request E c) tasks)"
    unfolding a start_tasks.simps r using rest by (simp add: a)
  then show ?case
    unfolding idx by (simp add: first task_reply_Cons comp_def)
qed

lemma reason_all_result:
  "fst (reason_all E c tasks order sent) = gather (fst (start_tasks E c tasks sent)) order"
  by (cases "start_tasks E c tasks sent") (simp add: reason_all_def)

text \<open>
  C3, as amended. In a batch run through \<^verbatim>\<open>asyncio.gather\<close>, a dispatch that raises makes
  the whole batch raise: once the first dispatch to raise, in the order of completion, has
  completed, the awaited batch is settled with that dispatch's exception, whatever the
  dispatches that complete later give and whether or not they have completed; no list of
  per-slot results is produced.
\<close>

theorem batch_raises_first_failure:
  assumes "order = pre @ i # post" and "distinct order"
    and "\<forall>j\<in>set order. j < length tasks"
    and "\<forall>j\<in>set pre. \<exists>d. fst (start_tasks E c tasks sent) ! j = Inr d"
    and "fst (start_tasks E c tasks sent) ! i = Inl e"
  shows "fst (reason_all E c tasks order sent) = Some (Inl e)"
proof -
  let ?ch = "fst (start_tasks E c tasks sent)"
  have "\<forall>j\<in>set order. j < length ?ch"
    using assms(3) by (simp add: start_tasks_length)
  with assms(1,2) have "gather ?ch order = Some (Inl e)"
    using assms(4,5) by (rule gather_first_failure)
  then show ?thesis by (simp add: reason_all_result)
qed

lemma sample_children_first_fails:
  "fst (start_tasks (first_fails_env (answer 200 (sample_body ''done'')))
          (local_client (JStr ''T1'') (Some Open)) sample_tasks []) =
     [Inl ClientError, Inr (sample_body ''done''), Inr (sample_body ''done'')]"
  by (simp add: sample_tasks_def advanced_tasks_def upt_rec reason_def fetch_json_unfold
      local_client_def first_fails_env_def transport_result_def response_json_def answer_def)

theorem batch_raises_first_failure_witness:
  "[1, 0, 2] = [1] @ 0 # [2::nat] \<and> distinct [1, 0, 2::nat] \<and>
   list_all (\<lambda>j. j < length sample_tasks) [1, 0, 2] \<and>
   fst (start_tasks (first_fails_env (answer 200 (sample_body ''done'')))
          (local_client (JStr ''T1'') (Some Open)) sample_tasks []) ! 1 = Inr (sample_body ''done'') \<and>
   fst (start_tasks (first_fails_env (answer 200 (sample_body ''done'')))
          (local_client (JStr ''T1'') (Some Open)) sample_tasks []) ! 0 = Inl ClientError \<and>
   fst (reason_all (first_fails_env (answer 200 (sample_body ''done'')))
          (local_client (JStr ''T1'') (Some Open)) sample_tasks [1, 0, 2] []) = Some (Inl ClientError)"
  using batch_raises_first_failure
    [of "[1, 0, 2]" "[1]" 0 "[2]" sample_tasks
        "first_fails_env (answer 200 (sample_body ''done''))"
        "local_client (JStr ''T1'') (Some Open)" "[]" ClientError]
  by (simp add: sample_children_first_fails)
     (simp add: sample_tasks_def advanced_tasks_def)

text \<open>
  C3 as stated fails: the first of three dispatches meets a transport failure and the other
  two are answered. When that dispatch alone has completed the batch is already settled
  with its exception; and when all three have completed, the failed one last, the batch
  still ends with the exception and not with a list of three slots.
\<close>

theorem batch_partial_failure_counterexample:
  "fst (reason_all (first_fails_env (answer 200 (sample_body ''done'')))
          (local_client (JStr ''T1'') (Some Open)) sample_tasks [0] []) = Some (Inl ClientError) \<and>
   fst (reason_all (first_fails_env (answer 200 (sample_body ''done'')))
          (local_client (JStr ''T1'') (Some Open)) sample_tasks [1, 2, 0] []) = Some (Inl ClientError)"
  by (simp add: reason_all_result sample_children_first_fails gather_def done_callback_def Let_def)

text \<open>
  C7, as amended. For every ordered sequence of N \<^verbatim>\<open>reason\<close> calls run as a batch on an
  open session, if the transport answers each of them with a decodable body, then whatever
  the order in which the N dispatches complete, the batch returns a list of length N whose
  i-th element is the decoded body of the answer to the i-th call.
\<close>

theorem batch_results_in_input_order:
  assumes "session c = Some Open" and "distinct order" and "set order = {..<length tasks}"
    and "length ds = length tasks"
    and "\<forall>i<length tasks. transport_result (task_reply E c tasks sent i) = Inr (ds ! i)"
  shows "reason_all E c tasks order sent =
           (Some (Inr (map Inr ds)), c, sent @ map (task_request E c) tasks) \<and>
         length (map Inr ds :: (error + json) list) = length tasks"
proof -
  let ?ch = "map (\<lambda>i. transport_result (task_reply E c tasks sent i)) [0..<length tasks]"
  have st: "start_tasks E c tasks sent = (?ch, c, sent @ map (task_request E c) tasks)"
    using assms(1) by (rule start_tasks_open)
  have ch: "?ch = map Inr ds"
    using assms(4,5) by (intro nth_equalityI) simp_all
  have "gather (map Inr ds :: (error + json) list) order = Some (Inr (map Inr ds))"
    using assms(2,3,4) by (intro gather_all_returned) simp_all
  then show ?thesis using assms(4) by (simp add: reason_all_def st ch)
qed

lemma sample_replies_echo:
  "i < 3 \<Longrightarrow>
   transport_result (task_reply echo_env (local_client (JStr ''T1'') (Some Open)) sample_tasks [] i) =
     Inr ([sample_body ''scenario 0'', sample_body ''scenario 1'', sample_body ''scenario 2''] ! i)"
proof -
  assume "i < 3"
  then have "i = 0 \<or> i = 1 \<or> i = 2" by arith
  then show ?thesis
    by (elim disjE)
       (simp_all add: task_reply_def task_request_def sample_tasks_def advanced_tasks_def upt_rec
          reason_request_def or_empty_def echo_env_def transport_result_def response_json_def
          sample_body_def)
qed

theorem batch_results_in_input_order_witness:
  "session (local_client (JStr ''T1'') (Some Open)) = Some Open \<and> distinct [2, 0, 1::nat] \<and>
   set [2, 0, 1] = {..<length sample_tasks} \<and>
   length [sample_body ''scenario 0'', sample_body ''scenario 1'', sample_body ''scenario 2'']
     = length sample_tasks \<and>
   map (\<lambda>i. transport_result
          (task_reply echo_env (local_client (JStr ''T1'') (Some Open)) sample_tasks [] i)) [0, 1, 2] =
     [Inr (sample_body ''scenario 0''), Inr (sample_body ''scenario 1''),
      Inr (sample_body ''scenario 2'')] \<and>
   fst (reason_all echo_env (local_client (JStr ''T1'') (Some Open)) sample_tasks [2, 0, 1] []) =
     Some (Inr [Inr (sample_body ''scenario 0''), Inr (sample_body ''scenario 1''),
                Inr (sample_body ''scenario 2'')])"
proof -
  let ?c = "local_client (JStr ''T1'') (Some Open)"
  let ?ds = "[sample_body ''scenario 0'', sample_body ''scenario 1'', sample_body ''scenario 2'']"
  have len: "length sample_tasks = 3"
    by (simp add: sample_tasks_def advanced_tasks_def)
  have s: "session ?c = Some Open" by (simp add: local_client_def)
  have d: "distinct [2, 0, 1::nat]" by simp
  have o: "set [2, 0, 1] = {..<length sample_tasks}" by (auto simp: len)
  have l: "length ?ds = length sample_tasks" by (simp add: len)
  have r: "\<forall>i<length sample_tasks.
      transport_result (task_reply echo_env ?c sample_tasks [] i) = Inr (?ds ! i)"
    by (simp add: len sample_replies_echo)
  have m: "map (\<lambda>i. transport_result (task_reply echo_env ?c sample_tasks [] i)) [0, 1, 2] =
      map Inr ?ds"
    using sample_replies_echo [of 0] sample_replies_echo [of 1] sample_replies_echo [of 2] by simp
  from batch_results_in_input_order [OF s d o l r]
  have "fst (reason_all echo_env ?c sample_tasks [2, 0, 1] []) = Some (Inr (map Inr ?ds))"
    by simp
  with s d o l m show ?thesis by simp
qed

text \<open>
  C7 as stated fails: of three dispatches the first meets a transport failure; all three
  complete, in input order, and the batch ends with the exception, not with a list of
  length three.
\<close>

theorem batch_result_length_counterexample:
  "fst (reason_all (first_fails_env (answer 200 (sample_body ''done'')))
          (local_client (JStr ''T1'') (Some Open)) sample_tasks [0, 1, 2] []) = Some (Inl ClientError) \<and>
   length sample_tasks = 3"
  by (simp add: reason_all_result sample_children_first_fails gather_def done_callback_def Let_def)
     (simp add: sample_tasks_def advanced_tasks_def)

subsection \<open>Release of the session\<close>

lemma perform_session: "session (fst (snd (perform E c k sent))) = session c"
proof (cases k)
  case (Login email password)
  then show ?thesis by (simp add: login_session)
qed (simp_all add: endpoint_defs fetch_json_unfold split: option.splits handle.splits)

lemma run_calls_session: "session (fst (snd (run_calls E c ks sent))) = session c"
proof (induction ks arbitrary: c sent)
  case Nil
  show ?case by simp
next
  case (Cons k ks)
  obtain r c1 sent1 where p: "perform E c k sent = (r, c1, sent1)"
    by (cases "perform E c k sent") auto
  have c1: "session c1 = session c"
    using perform_session [of E c k sent] by (simp add: p)
  obtain r2 c2 sent2 where q: "run_calls E c1 ks sent1 = (r2, c2, sent2)"
    by (cases "run_calls E c1 ks sent1") auto
  have "session c2 = session c1"
    using Cons.IH [of c1 sent1] by (simp add: q)
  with c1 show ?case by (simp add: p q split: sum.splits)
qed

text \<open>
  C8. Releasing twice is the same as releasing once and raises nothing; a released client
  has no open session; and a scope that acquires a client and makes any sequence of calls
  on it ends with the session closed, also when one of the calls raised, the exception
  going on to the caller.
\<close>

theorem release_idempotent_on_every_exit:
  "aexit (aexit c) = aexit c \<and>
   session (aexit c) \<noteq> Some Open \<and>
   session (fst (snd (async_with b (\<lambda>cl. run_calls E cl ks) sent))) = Some Closed \<and>
   fst (async_with b (\<lambda>cl. run_calls E cl ks) sent) =
     fst (run_calls E (aenter (init_client b)) ks sent)"
proof -
  have a: "aexit (aexit c) = aexit c"
    by (simp add: aexit_def session_close_def split: option.splits handle.splits)
  have b: "session (aexit c) \<noteq> Some Open"
    by (simp add: aexit_def session_close_def split: option.splits handle.splits)
  obtain r c1 sent1 where p: "run_calls E (aenter (init_client b)) ks sent = (r, c1, sent1)"
    by (cases "run_calls E (aenter (init_client b)) ks sent") auto
  have "session c1 = Some Open"
    using run_calls_session [of E "aenter (init_client b)" ks sent] unfolding p
    by (simp add: aenter_def)
  then have c: "session (fst (snd (async_with b (\<lambda>cl. run_calls E cl ks) sent))) = Some Closed"
    by (simp add: async_with_def p aexit_def session_close_def)
  have d: "fst (async_with b (\<lambda>cl. run_calls E cl ks) sent) =
      fst (run_calls E (aenter (init_client b)) ks sent)"
    by (simp add: async_with_def p)
  from a b c d show ?thesis by blast
qed

theorem release_idempotent_on_every_exit_witness:
  "fst (async_with ''http://localhost:3200''
          (\<lambda>cl. run_calls (const_env NetworkFailure) cl [Login ''a@x.com'' ''p'', GetMetrics]) [])
     = Inl ClientError \<and>
   session (fst (snd (async_with ''http://localhost:3200''
          (\<lambda>cl. run_calls (const_env NetworkFailure) cl [Login ''a@x.com'' ''p'', GetMetrics]) [])))
     = Some Closed \<and>
   aexit (aexit (local_client JNull (Some Open))) = local_client JNull (Some Closed)"
  using release_idempotent_on_every_exit
    [of "local_client JNull (Some Open)" "''http://localhost:3200''" "const_env NetworkFailure"
        "[Login ''a@x.com'' ''p'', GetMetrics]" "[]"]
  by (simp add: aexit_def session_close_def local_client_def aenter_def init_client_def
      login_def session_request_def const_env_def)

end
